theory Spec2Isabelle
  imports Main
begin

section \<open>registerSubdomain.py: values, faults and observable effects\<close>

text \<open>
  The script is one procedure, \<^verbatim>\<open>main()\<close>: it loads five settings from the process
  environment, reads \<^verbatim>\<open>sys.argv[1]\<close>, builds an XML-RPC proxy and invokes two remote
  methods with a \<^verbatim>\<open>time.sleep(1)\<close> in between. The model keeps Python's name
  resolution (locals, then the module namespace, else \<^verbatim>\<open>NameError\<close>), its
  left-to-right evaluation of call arguments, and the propagation of the first
  exception; the three effects a run can have on the outside world are recorded
  as events, in order.
\<close>

datatype pyval =
    PyNone
  | PyStr string
  | PyInt int
  | PyDict "(string \<times> pyval) list"
  | PyModule string
  | PyFunction string
  | PyProxy pyval

datatype py_error =
    IndexError
  | NameError string
  | AttributeError
  | LibError string

datatype event =
    NewServerProxy pyval string
  | RemoteCall string "pyval list"
  | Sleep nat

text \<open>
  What the imported libraries do is not part of the repository; it is taken as a
  parameter. \<open>dotenv\<close> is the effect of \<^verbatim>\<open>load_dotenv()\<close> on \<^verbatim>\<open>os.environ\<close>,
  \<open>proxy_init\<close> says whether \<^verbatim>\<open>ServerProxy(uri=..., encoding=...)\<close> raises, and
  \<open>request\<close> is the outcome of one remote method invocation (a value, or the
  fault raised by the transport or the server), which may depend on everything the
  run did before.
\<close>

record lib =
  dotenv :: "(string \<rightharpoonup> string) \<Rightarrow> (string \<rightharpoonup> string)"
  proxy_init :: "pyval \<Rightarrow> string \<Rightarrow> py_error option"
  request :: "event list \<Rightarrow> string \<Rightarrow> pyval list \<Rightarrow> py_error + pyval"

record frame =
  environ :: "string \<rightharpoonup> string"
  argv :: "string list"
  globals :: "string \<rightharpoonup> pyval"
  locals :: "string \<rightharpoonup> pyval"
  events :: "event list"
  raised :: "py_error option"

type_synonym expr = "frame \<Rightarrow> (py_error + pyval) \<times> frame"

type_synonym stmt = "frame \<Rightarrow> frame"

section \<open>Expressions\<close>

definition lit :: "pyval \<Rightarrow> expr" where
  "lit v fr = (Inr v, fr)"

text \<open>A name is looked up among the locals, then in the module namespace.\<close>

definition var :: "string \<Rightarrow> expr" where
  "var x fr =
     (case locals fr x of
        Some v \<Rightarrow> (Inr v, fr)
      | None \<Rightarrow>
          (case globals fr x of
             Some v \<Rightarrow> (Inr v, fr)
           | None \<Rightarrow> (Inl (NameError x), fr)))"

text \<open>\<^verbatim>\<open>os.getenv(key)\<close>: the value, or \<^verbatim>\<open>None\<close> when the variable is unset.\<close>

definition envval :: "(string \<rightharpoonup> string) \<Rightarrow> string \<Rightarrow> pyval" where
  "envval e k = (case e k of None \<Rightarrow> PyNone | Some v \<Rightarrow> PyStr v)"

definition getenv :: "string \<Rightarrow> expr" where
  "getenv k fr = (Inr (envval (environ fr) k), fr)"

text \<open>\<^verbatim>\<open>sys.argv[i]\<close> for a non-negative literal index.\<close>

definition argv_at :: "nat \<Rightarrow> expr" where
  "argv_at i fr =
     (if i < length (argv fr) then (Inr (PyStr (argv fr ! i)), fr)
      else (Inl IndexError, fr))"

text \<open>Arguments are evaluated left to right; the first fault stops the evaluation.\<close>

fun eval_args :: "expr list \<Rightarrow> frame \<Rightarrow> (py_error + pyval list) \<times> frame" where
  "eval_args [] fr = (Inr [], fr)"
| "eval_args (e # es) fr =
     (case e fr of
        (Inl err, fr1) \<Rightarrow> (Inl err, fr1)
      | (Inr v, fr1) \<Rightarrow>
          (case eval_args es fr1 of
             (Inl err, fr2) \<Rightarrow> (Inl err, fr2)
           | (Inr vs, fr2) \<Rightarrow> (Inr (v # vs), fr2)))"

text \<open>A dictionary display evaluates its values in the order written.\<close>

definition dict_display :: "(string \<times> expr) list \<Rightarrow> expr" where
  "dict_display kvs fr =
     (case eval_args (map snd kvs) fr of
        (Inl err, fr1) \<Rightarrow> (Inl err, fr1)
      | (Inr vs, fr1) \<Rightarrow> (Inr (PyDict (zip (map fst kvs) vs)), fr1))"

text \<open>
  \<^verbatim>\<open>xmlrpc.client.ServerProxy(uri = u, encoding = enc)\<close>: the constructor either
  raises or yields a proxy; no request is sent.
\<close>

definition ServerProxy :: "lib \<Rightarrow> expr \<Rightarrow> string \<Rightarrow> expr" where
  "ServerProxy L u enc fr =
     (case u fr of
        (Inl err, fr1) \<Rightarrow> (Inl err, fr1)
      | (Inr uri, fr1) \<Rightarrow>
          (case proxy_init L uri enc of
             Some err \<Rightarrow> (Inl err, fr1)
           | None \<Rightarrow>
               (Inr (PyProxy uri),
                fr1\<lparr>events := events fr1 @ [NewServerProxy uri enc]\<rparr>)))"

text \<open>
  \<^verbatim>\<open>obj.meth(args...)\<close> on a proxy: the receiver is resolved, then the arguments
  are evaluated, and only then is the request sent.
\<close>

definition method_call :: "lib \<Rightarrow> string \<Rightarrow> string \<Rightarrow> expr list \<Rightarrow> expr" where
  "method_call L obj meth args fr =
     (case var obj fr of
        (Inl err, fr1) \<Rightarrow> (Inl err, fr1)
      | (Inr c, fr1) \<Rightarrow>
          (case c of
             PyProxy uri \<Rightarrow>
               (case eval_args args fr1 of
                  (Inl err, fr2) \<Rightarrow> (Inl err, fr2)
                | (Inr vs, fr2) \<Rightarrow>
                    (request L (events fr2) meth vs,
                     fr2\<lparr>events := events fr2 @ [RemoteCall meth vs]\<rparr>))
           | _ \<Rightarrow> (Inl AttributeError, fr1)))"

section \<open>Statements\<close>

definition assign :: "string \<Rightarrow> expr \<Rightarrow> stmt" where
  "assign x e fr =
     (case e fr of
        (Inl err, fr1) \<Rightarrow> fr1\<lparr>raised := Some err\<rparr>
      | (Inr v, fr1) \<Rightarrow> fr1\<lparr>locals := (locals fr1)(x \<mapsto> v)\<rparr>)"

definition load_dotenv :: "lib \<Rightarrow> stmt" where
  "load_dotenv L fr = fr\<lparr>environ := dotenv L (environ fr)\<rparr>"

definition time_sleep :: "nat \<Rightarrow> stmt" where
  "time_sleep n fr = fr\<lparr>events := events fr @ [Sleep n]\<rparr>"

text \<open>
  A block runs its statements in order. The source has no \<^verbatim>\<open>try\<close>: once a
  statement has raised, nothing after it runs.
\<close>

fun exec :: "stmt list \<Rightarrow> frame \<Rightarrow> frame" where
  "exec [] fr = fr"
| "exec (s # ss) fr =
     (let fr1 = s fr in if raised fr1 = None then exec ss fr1 else fr1)"

section \<open>The procedure \<^verbatim>\<open>main\<close>\<close>

text \<open>Lines 11 to 17: \<^verbatim>\<open>load_dotenv()\<close> and the five \<^verbatim>\<open>os.getenv\<close> assignments.\<close>

definition load_config :: "lib \<Rightarrow> stmt list" where
  "load_config L =
     [load_dotenv L,
      assign ''global_api_username'' (getenv ''DNS_API_USER''),
      assign ''global_api_password'' (getenv ''DNS_API_PASS''),
      assign ''school_ip_address'' (getenv ''SCHOOL_IP_ADDRESS''),
      assign ''global_dns_uri'' (getenv ''DNS_API_URI''),
      assign ''domain_suffix'' (getenv ''DOMAIN_SUFFIX'')]"

text \<open>Lines 25 to 30: the record description built inline.\<close>

definition record_obj :: expr where
  "record_obj =
     dict_display
       [(''type'', lit (PyStr ''A'')),
        (''ttl'', lit (PyInt 3600)),
        (''priority'', lit (PyInt 1)),
        (''rdata'', var ''school_ip_address''),
        (''record_id'', lit (PyInt 10))]"

text \<open>Lines 19 to 31.\<close>

definition register_calls :: "lib \<Rightarrow> stmt list" where
  "register_calls L =
     [assign ''subdomain'' (argv_at 1),
      assign ''client'' (ServerProxy L (var ''global_dns_uri'') ''utf-8''),
      assign ''response''
        (method_call L ''client'' ''addSubdomain''
           [var ''global_api_username'', var ''global_api_password'',
            var ''domain'', var ''subdomain'']),
      time_sleep 1,
      assign ''record_obj'' record_obj,
      assign ''response''
        (method_call L ''client'' ''addZoneRecord''
           [var ''global_api_username'', var ''global_api_password'',
            var ''domain'', var ''subdomain'', var ''record_obj''])]"

definition main_body :: "lib \<Rightarrow> stmt list" where
  "main_body L = load_config L @ register_calls L"

text \<open>
  The names the module itself binds at top level: its imports and \<^verbatim>\<open>main\<close>.
  There is no binding of \<^verbatim>\<open>domain\<close> among them.
\<close>

definition module_globals :: "string \<rightharpoonup> pyval" where
  "module_globals =
     map_of
       [(''sys'', PyModule ''sys''),
        (''time'', PyModule ''time''),
        (''xmlrpc'', PyModule ''xmlrpc''),
        (''os'', PyModule ''os''),
        (''load_dotenv'', PyFunction ''load_dotenv''),
        (''main'', PyFunction ''main'')]"

text \<open>
  \<^verbatim>\<open>main\<close> resolves its free names in the namespace of its module at the time it
  is called. \<open>extra\<close> holds whatever further names that namespace has then beyond
  the module's own bindings (none when the file is run as a script; a caller that
  imports the module can have added some).
\<close>

definition start :: "(string \<rightharpoonup> pyval) \<Rightarrow> (string \<rightharpoonup> string) \<Rightarrow> string list \<Rightarrow> frame" where
  "start extra env args =
     \<lparr>environ = env, argv = args, globals = extra ++ module_globals,
      locals = Map.empty, events = [], raised = None\<rparr>"

definition main :: "lib \<Rightarrow> (string \<rightharpoonup> pyval) \<Rightarrow> (string \<rightharpoonup> string) \<Rightarrow> string list \<Rightarrow> frame" where
  "main L extra env args = exec (main_body L) (start extra env args)"

text \<open>Lines 34 and 35: running the file calls \<^verbatim>\<open>main()\<close> in the module as loaded.\<close>

definition script :: "lib \<Rightarrow> (string \<rightharpoonup> string) \<Rightarrow> string list \<Rightarrow> frame" where
  "script L env args = main L Map.empty env args"


section \<open>Notation for the values a run handles\<close>

text \<open>
  \<open>cfg L env k\<close> is what \<^verbatim>\<open>os.getenv(k)\<close> returns after \<^verbatim>\<open>load_dotenv()\<close> has run;
  the other abbreviations name the events a run can produce.
\<close>

abbreviation cfg :: "lib \<Rightarrow> (string \<rightharpoonup> string) \<Rightarrow> string \<Rightarrow> pyval" where
  "cfg L env k \<equiv> envval (dotenv L env) k"

abbreviation zone_record :: "pyval \<Rightarrow> pyval" where
  "zone_record ip \<equiv>
     PyDict [(''type'', PyStr ''A''), (''ttl'', PyInt 3600), (''priority'', PyInt 1),
             (''rdata'', ip), (''record_id'', PyInt 10)]"

abbreviation proxy_made :: "lib \<Rightarrow> (string \<rightharpoonup> string) \<Rightarrow> event" where
  "proxy_made L env \<equiv> NewServerProxy (cfg L env ''DNS_API_URI'') ''utf-8''"

abbreviation sub_args :: "lib \<Rightarrow> (string \<rightharpoonup> string) \<Rightarrow> pyval \<Rightarrow> string \<Rightarrow> pyval list" where
  "sub_args L env d s \<equiv> [cfg L env ''DNS_API_USER'', cfg L env ''DNS_API_PASS'', d, PyStr s]"

abbreviation zone_args :: "lib \<Rightarrow> (string \<rightharpoonup> string) \<Rightarrow> pyval \<Rightarrow> string \<Rightarrow> pyval list" where
  "zone_args L env d s \<equiv>
     [cfg L env ''DNS_API_USER'', cfg L env ''DNS_API_PASS'', d, PyStr s,
      zone_record (cfg L env ''SCHOOL_IP_ADDRESS'')]"

abbreviation first_answer ::
  "lib \<Rightarrow> (string \<rightharpoonup> string) \<Rightarrow> pyval \<Rightarrow> string \<Rightarrow> py_error + pyval" where
  "first_answer L env d s \<equiv>
     request L [proxy_made L env] ''addSubdomain'' (sub_args L env d s)"

abbreviation second_answer ::
  "lib \<Rightarrow> (string \<rightharpoonup> string) \<Rightarrow> pyval \<Rightarrow> string \<Rightarrow> py_error + pyval" where
  "second_answer L env d s \<equiv>
     request L
       [proxy_made L env, RemoteCall ''addSubdomain'' (sub_args L env d s), Sleep 1]
       ''addZoneRecord'' (zone_args L env d s)"

definition config_locals :: "(string \<rightharpoonup> string) \<Rightarrow> (string \<rightharpoonup> pyval)" where
  "config_locals e =
     [''global_api_username'' \<mapsto> envval e ''DNS_API_USER'',
      ''global_api_password'' \<mapsto> envval e ''DNS_API_PASS'',
      ''school_ip_address'' \<mapsto> envval e ''SCHOOL_IP_ADDRESS'',
      ''global_dns_uri'' \<mapsto> envval e ''DNS_API_URI'',
      ''domain_suffix'' \<mapsto> envval e ''DOMAIN_SUFFIX'']"

abbreviation configured :: "lib \<Rightarrow> (string \<rightharpoonup> pyval) \<Rightarrow> (string \<rightharpoonup> string) \<Rightarrow> string list \<Rightarrow> frame" where
  "configured L extra env args \<equiv>
     (start extra env args)
       \<lparr>environ := dotenv L env, locals := config_locals (dotenv L env)\<rparr>"


section \<open>A sample installation\<close>

text \<open>
  Concrete inputs on which the model is run: an environment with all five
  variables set, a library in which \<^verbatim>\<open>load_dotenv()\<close> finds nothing to add, the
  proxy constructor accepts exactly the \<^verbatim>\<open>http\<close> and \<^verbatim>\<open>https\<close> URIs, and every
  request is answered; and the namespace of a caller that has bound \<^verbatim>\<open>domain\<close> in
  the module before calling \<^verbatim>\<open>main()\<close>.
\<close>

definition sample_env :: "string \<rightharpoonup> string" where
  "sample_env =
     map_of
       [(''DNS_API_USER'', ''alice''),
        (''DNS_API_PASS'', ''s3cret''),
        (''SCHOOL_IP_ADDRESS'', ''192.0.2.10''),
        (''DNS_API_URI'', ''https://dns.example/xmlrpc''),
        (''DOMAIN_SUFFIX'', ''school.example'')]"

definition accepts_uri :: "pyval \<Rightarrow> string \<Rightarrow> py_error option" where
  "accepts_uri u enc =
     (case u of
        PyStr s \<Rightarrow>
          (if take 7 s = ''http://'' \<or> take 8 s = ''https://'' then None
           else Some (LibError ''OSError''))
      | _ \<Rightarrow> Some (LibError ''TypeError''))"

definition sample_lib :: lib where
  "sample_lib =
     \<lparr>dotenv = (\<lambda>e. e), proxy_init = accepts_uri, request = (\<lambda>h m vs. Inr (PyInt 0))\<rparr>"

definition offline_lib :: lib where
  "offline_lib = sample_lib\<lparr>request := (\<lambda>h m vs. Inl (LibError ''ConnectionRefusedError''))\<rparr>"

definition flaky_lib :: lib where
  "flaky_lib =
     sample_lib\<lparr>request :=
       (\<lambda>h m vs. if m = ''addSubdomain'' then Inr (PyInt 0) else Inl (LibError ''Fault''))\<rparr>"

definition with_domain :: "string \<rightharpoonup> pyval" where
  "with_domain = [''domain'' \<mapsto> PyStr ''school.example'']"

text \<open>An environment in which only the endpoint is set.\<close>

definition partial_env :: "string \<rightharpoonup> string" where
  "partial_env = map_of [(''DNS_API_URI'', ''https://dns.example/xmlrpc'')]"

section \<open>Stepping through \<^verbatim>\<open>main\<close>\<close>

lemma exec_append:
  "raised fr = None \<Longrightarrow>
   exec (xs @ ys) fr =
     (let fr1 = exec xs fr in if raised fr1 = None then exec ys fr1 else fr1)"
  by (induction xs arbitrary: fr) (auto simp add: Let_def)

lemma load_config_exec:
  "exec (load_config L) (start extra env args) = configured L extra env args"
  by (simp add: load_config_def start_def load_dotenv_def assign_def getenv_def
        config_locals_def Let_def)

lemma main_unfold:
  "main L extra env args = exec (register_calls L) (configured L extra env args)"
proof -
  have "raised (start extra env args) = None"
    by (simp add: start_def)
  then show ?thesis
    by (simp add: main_def main_body_def exec_append load_config_exec Let_def)
qed

lemmas run_defs =
  main_unfold register_calls_def assign_def argv_at_def start_def Let_def
  ServerProxy_def var_def config_locals_def method_call_def module_globals_def map_add_def
  time_sleep_def record_obj_def dict_display_def lit_def

lemma main_no_arg:
  assumes "\<not> 1 < length args"
  shows "main L extra env args = (configured L extra env args)\<lparr>raised := Some IndexError\<rparr>"
  using assms by (simp add: run_defs)

lemma main_proxy_fails:
  assumes "1 < length args" and "proxy_init L (cfg L env ''DNS_API_URI'') ''utf-8'' = Some e"
  shows "main L extra env args =
     (configured L extra env args)
       \<lparr>locals := (config_locals (dotenv L env))(''subdomain'' \<mapsto> PyStr (args ! 1)),
        raised := Some e\<rparr>"
  using assms by (simp add: run_defs)

lemma main_domain_unbound:
  assumes "1 < length args" and "proxy_init L (cfg L env ''DNS_API_URI'') ''utf-8'' = None"
    and "extra ''domain'' = None"
  shows "main L extra env args =
     (configured L extra env args)
       \<lparr>locals := (config_locals (dotenv L env))
           (''subdomain'' \<mapsto> PyStr (args ! 1),
            ''client'' \<mapsto> PyProxy (cfg L env ''DNS_API_URI'')),
        events := [proxy_made L env],
        raised := Some (NameError ''domain'')\<rparr>"
  using assms by (simp add: run_defs)

lemma main_first_call_fails:
  assumes "1 < length args" and "proxy_init L (cfg L env ''DNS_API_URI'') ''utf-8'' = None"
    and "extra ''domain'' = Some d"
    and "first_answer L env d (args ! 1) = Inl e"
  shows "main L extra env args =
     (configured L extra env args)
       \<lparr>locals := (config_locals (dotenv L env))
           (''subdomain'' \<mapsto> PyStr (args ! 1),
            ''client'' \<mapsto> PyProxy (cfg L env ''DNS_API_URI'')),
        events := [proxy_made L env, RemoteCall ''addSubdomain'' (sub_args L env d (args ! 1))],
        raised := Some e\<rparr>"
  using assms by (simp add: run_defs)

lemma main_second_call_fails:
  assumes "1 < length args" and "proxy_init L (cfg L env ''DNS_API_URI'') ''utf-8'' = None"
    and "extra ''domain'' = Some d"
    and "first_answer L env d (args ! 1) = Inr r"
    and "second_answer L env d (args ! 1) = Inl e"
  shows "main L extra env args =
     (configured L extra env args)
       \<lparr>locals := (config_locals (dotenv L env))
           (''subdomain'' \<mapsto> PyStr (args ! 1),
            ''client'' \<mapsto> PyProxy (cfg L env ''DNS_API_URI''),
            ''response'' \<mapsto> r,
            ''record_obj'' \<mapsto> zone_record (cfg L env ''SCHOOL_IP_ADDRESS'')),
        events := [proxy_made L env, RemoteCall ''addSubdomain'' (sub_args L env d (args ! 1)),
           Sleep 1, RemoteCall ''addZoneRecord'' (zone_args L env d (args ! 1))],
        raised := Some e\<rparr>"
  using assms by (simp add: run_defs)

lemma main_completes:
  assumes "1 < length args" and "proxy_init L (cfg L env ''DNS_API_URI'') ''utf-8'' = None"
    and "extra ''domain'' = Some d"
    and "first_answer L env d (args ! 1) = Inr r"
    and "second_answer L env d (args ! 1) = Inr r2"
  shows "main L extra env args =
     (configured L extra env args)
       \<lparr>locals := (config_locals (dotenv L env))
           (''subdomain'' \<mapsto> PyStr (args ! 1),
            ''client'' \<mapsto> PyProxy (cfg L env ''DNS_API_URI''),
            ''response'' \<mapsto> r,
            ''record_obj'' \<mapsto> zone_record (cfg L env ''SCHOOL_IP_ADDRESS''),
            ''response'' \<mapsto> r2),
        events := [proxy_made L env, RemoteCall ''addSubdomain'' (sub_args L env d (args ! 1)),
           Sleep 1, RemoteCall ''addZoneRecord'' (zone_args L env d (args ! 1))]\<rparr>"
  using assms by (simp add: run_defs)

text \<open>Every run of \<^verbatim>\<open>main\<close> ends in one of six ways.\<close>

lemma main_cases:
  obtains
    (no_arg) "\<not> 1 < length args"
      and "main L extra env args = (configured L extra env args)\<lparr>raised := Some IndexError\<rparr>"
  | (proxy_fails) e where "1 < length args"
      and "proxy_init L (cfg L env ''DNS_API_URI'') ''utf-8'' = Some e"
      and "main L extra env args =
        (configured L extra env args)
          \<lparr>locals := (config_locals (dotenv L env))(''subdomain'' \<mapsto> PyStr (args ! 1)),
           raised := Some e\<rparr>"
  | (unbound) "1 < length args"
      and "proxy_init L (cfg L env ''DNS_API_URI'') ''utf-8'' = None"
      and "extra ''domain'' = None"
      and "main L extra env args =
        (configured L extra env args)
          \<lparr>locals := (config_locals (dotenv L env))
              (''subdomain'' \<mapsto> PyStr (args ! 1),
               ''client'' \<mapsto> PyProxy (cfg L env ''DNS_API_URI'')),
           events := [proxy_made L env],
           raised := Some (NameError ''domain'')\<rparr>"
  | (first_fails) d e where "1 < length args"
      and "proxy_init L (cfg L env ''DNS_API_URI'') ''utf-8'' = None"
      and "extra ''domain'' = Some d"
      and "first_answer L env d (args ! 1) = Inl e"
      and "main L extra env args =
        (configured L extra env args)
          \<lparr>locals := (config_locals (dotenv L env))
              (''subdomain'' \<mapsto> PyStr (args ! 1),
               ''client'' \<mapsto> PyProxy (cfg L env ''DNS_API_URI'')),
           events := [proxy_made L env,
              RemoteCall ''addSubdomain'' (sub_args L env d (args ! 1))],
           raised := Some e\<rparr>"
  | (second_fails) d r e where "1 < length args"
      and "proxy_init L (cfg L env ''DNS_API_URI'') ''utf-8'' = None"
      and "extra ''domain'' = Some d"
      and "first_answer L env d (args ! 1) = Inr r"
      and "second_answer L env d (args ! 1) = Inl e"
      and "main L extra env args =
        (configured L extra env args)
          \<lparr>locals := (config_locals (dotenv L env))
              (''subdomain'' \<mapsto> PyStr (args ! 1),
               ''client'' \<mapsto> PyProxy (cfg L env ''DNS_API_URI''),
               ''response'' \<mapsto> r,
               ''record_obj'' \<mapsto> zone_record (cfg L env ''SCHOOL_IP_ADDRESS'')),
           events := [proxy_made L env,
              RemoteCall ''addSubdomain'' (sub_args L env d (args ! 1)),
              Sleep 1, RemoteCall ''addZoneRecord'' (zone_args L env d (args ! 1))],
           raised := Some e\<rparr>"
  | (completes) d r r2 where "1 < length args"
      and "proxy_init L (cfg L env ''DNS_API_URI'') ''utf-8'' = None"
      and "extra ''domain'' = Some d"
      and "first_answer L env d (args ! 1) = Inr r"
      and "second_answer L env d (args ! 1) = Inr r2"
      and "main L extra env args =
        (configured L extra env args)
          \<lparr>locals := (config_locals (dotenv L env))
              (''subdomain'' \<mapsto> PyStr (args ! 1),
               ''client'' \<mapsto> PyProxy (cfg L env ''DNS_API_URI''),
               ''response'' \<mapsto> r,
               ''record_obj'' \<mapsto> zone_record (cfg L env ''SCHOOL_IP_ADDRESS''),
               ''response'' \<mapsto> r2),
           events := [proxy_made L env,
              RemoteCall ''addSubdomain'' (sub_args L env d (args ! 1)),
              Sleep 1, RemoteCall ''addZoneRecord'' (zone_args L env d (args ! 1))]\<rparr>"
proof (cases "1 < length args")
  case False
  then show ?thesis
    using no_arg main_no_arg by blast
next
  case arg: True
  show ?thesis
  proof (cases "proxy_init L (cfg L env ''DNS_API_URI'') ''utf-8''")
    case (Some e)
    then show ?thesis
      using proxy_fails main_proxy_fails arg by blast
  next
    case ok: None
    show ?thesis
    proof (cases "extra ''domain''")
      case None
      then show ?thesis
        using unbound main_domain_unbound arg ok by blast
    next
      case (Some d)
      note dom = this
      show ?thesis
      proof (cases "first_answer L env d (args ! 1)")
        case (Inl e)
        then show ?thesis
          using first_fails main_first_call_fails arg ok dom by blast
      next
        case (Inr r)
        note one = this
        show ?thesis
        proof (cases "second_answer L env d (args ! 1)")
          case (Inl e)
          then show ?thesis
            using second_fails main_second_call_fails arg ok dom one by blast
        next
          case (Inr r2)
          then show ?thesis
            using completes main_completes arg ok dom one by blast
        qed
      qed
    qed
  qed
qed


text \<open>When a statement of a block raises, the block ends in the frame of that raise.\<close>

lemma exec_stops:
  assumes "raised fr = None" and "raised (exec pre fr) = None"
    and "raised (s (exec pre fr)) = Some e"
  shows "exec (pre @ s # post) fr = s (exec pre fr)"
  using assms by (simp add: exec_append Let_def)

lemma argv_slice:
  "take 1 (drop 1 a) = (if 1 < length a then [a ! 1] else [])"
proof (cases a)
  case Nil
  then show ?thesis by simp
next
  case (Cons x xs)
  then show ?thesis by (cases xs) simp_all
qed


section \<open>Facts about the sample installation\<close>

lemma sample_cfg:
  "cfg sample_lib sample_env ''DNS_API_USER'' = PyStr ''alice''"
  "cfg sample_lib sample_env ''DNS_API_PASS'' = PyStr ''s3cret''"
  "cfg sample_lib sample_env ''SCHOOL_IP_ADDRESS'' = PyStr ''192.0.2.10''"
  "cfg sample_lib sample_env ''DNS_API_URI'' = PyStr ''https://dns.example/xmlrpc''"
  "cfg sample_lib sample_env ''DOMAIN_SUFFIX'' = PyStr ''school.example''"
  by (simp_all add: sample_lib_def sample_env_def envval_def)

lemma sample_proxy:
  "proxy_init sample_lib (PyStr ''https://dns.example/xmlrpc'') ''utf-8'' = None"
  "proxy_init sample_lib PyNone ''utf-8'' = Some (LibError ''TypeError'')"
  by (simp_all add: sample_lib_def accepts_uri_def)

lemma start_simps [simp]:
  "environ (start extra env args) = env"
  "argv (start extra env args) = args"
  "globals (start extra env args) = extra ++ module_globals"
  "locals (start extra env args) = Map.empty"
  "events (start extra env args) = []"
  "raised (start extra env args) = None"
  by (simp_all add: start_def)

lemma sample_run:
  "main sample_lib with_domain sample_env [''registerSubdomain.py'', ''www''] =
     (configured sample_lib with_domain sample_env [''registerSubdomain.py'', ''www''])
       \<lparr>locals := (config_locals (dotenv sample_lib sample_env))
           (''subdomain'' \<mapsto> PyStr ''www'',
            ''client'' \<mapsto> PyProxy (PyStr ''https://dns.example/xmlrpc''),
            ''response'' \<mapsto> PyInt 0,
            ''record_obj'' \<mapsto> zone_record (PyStr ''192.0.2.10''),
            ''response'' \<mapsto> PyInt 0),
        events :=
          [NewServerProxy (PyStr ''https://dns.example/xmlrpc'') ''utf-8'',
           RemoteCall ''addSubdomain''
             [PyStr ''alice'', PyStr ''s3cret'', PyStr ''school.example'', PyStr ''www''],
           Sleep 1,
           RemoteCall ''addZoneRecord''
             [PyStr ''alice'', PyStr ''s3cret'', PyStr ''school.example'', PyStr ''www'',
              zone_record (PyStr ''192.0.2.10'')]]\<rparr>"
proof -
  have "main sample_lib with_domain sample_env [''registerSubdomain.py'', ''www''] =
     (configured sample_lib with_domain sample_env [''registerSubdomain.py'', ''www''])
       \<lparr>locals := (config_locals (dotenv sample_lib sample_env))
           (''subdomain'' \<mapsto> PyStr ([''registerSubdomain.py'', ''www''] ! 1),
            ''client'' \<mapsto> PyProxy (cfg sample_lib sample_env ''DNS_API_URI''),
            ''response'' \<mapsto> PyInt 0,
            ''record_obj'' \<mapsto> zone_record (cfg sample_lib sample_env ''SCHOOL_IP_ADDRESS''),
            ''response'' \<mapsto> PyInt 0),
        events := [proxy_made sample_lib sample_env,
           RemoteCall ''addSubdomain''
             (sub_args sample_lib sample_env (PyStr ''school.example'')
                ([''registerSubdomain.py'', ''www''] ! 1)),
           Sleep 1,
           RemoteCall ''addZoneRecord''
             (zone_args sample_lib sample_env (PyStr ''school.example'')
                ([''registerSubdomain.py'', ''www''] ! 1))]\<rparr>"
    by (rule main_completes)
      (simp_all add: sample_cfg sample_proxy with_domain_def, simp_all add: sample_lib_def)
  then show ?thesis
    by (simp add: sample_cfg)
qed

lemma offline_cfg:
  "cfg offline_lib sample_env ''DNS_API_USER'' = PyStr ''alice''"
  "cfg offline_lib sample_env ''DNS_API_PASS'' = PyStr ''s3cret''"
  "cfg offline_lib sample_env ''SCHOOL_IP_ADDRESS'' = PyStr ''192.0.2.10''"
  "cfg offline_lib sample_env ''DNS_API_URI'' = PyStr ''https://dns.example/xmlrpc''"
  "proxy_init offline_lib (PyStr ''https://dns.example/xmlrpc'') ''utf-8'' = None"
  "request offline_lib h m vs = Inl (LibError ''ConnectionRefusedError'')"
  by (simp_all add: offline_lib_def sample_lib_def sample_env_def envval_def accepts_uri_def)

lemma flaky_cfg:
  "cfg flaky_lib sample_env ''DNS_API_USER'' = PyStr ''alice''"
  "cfg flaky_lib sample_env ''DNS_API_PASS'' = PyStr ''s3cret''"
  "cfg flaky_lib sample_env ''SCHOOL_IP_ADDRESS'' = PyStr ''192.0.2.10''"
  "cfg flaky_lib sample_env ''DNS_API_URI'' = PyStr ''https://dns.example/xmlrpc''"
  "proxy_init flaky_lib (PyStr ''https://dns.example/xmlrpc'') ''utf-8'' = None"
  "request flaky_lib h ''addSubdomain'' vs = Inr (PyInt 0)"
  "request flaky_lib h ''addZoneRecord'' vs = Inl (LibError ''Fault'')"
  by (simp_all add: flaky_lib_def sample_lib_def sample_env_def envval_def accepts_uri_def)

lemma partial_cfg:
  "dotenv sample_lib partial_env ''DNS_API_USER'' = None"
  "dotenv sample_lib partial_env ''DNS_API_PASS'' = None"
  "dotenv sample_lib partial_env ''SCHOOL_IP_ADDRESS'' = None"
  "cfg sample_lib partial_env ''DNS_API_USER'' = PyNone"
  "cfg sample_lib partial_env ''DNS_API_PASS'' = PyNone"
  "cfg sample_lib partial_env ''SCHOOL_IP_ADDRESS'' = PyNone"
  "cfg sample_lib partial_env ''DNS_API_URI'' = PyStr ''https://dns.example/xmlrpc''"
  by (simp_all add: sample_lib_def partial_env_def envval_def)

lemma partial_run:
  "events (main sample_lib with_domain partial_env [''registerSubdomain.py'', ''www'']) =
     [NewServerProxy (PyStr ''https://dns.example/xmlrpc'') ''utf-8'',
      RemoteCall ''addSubdomain''
        [PyNone, PyNone, PyStr ''school.example'', PyStr ''www''],
      Sleep 1,
      RemoteCall ''addZoneRecord''
        [PyNone, PyNone, PyStr ''school.example'', PyStr ''www'', zone_record PyNone]]"
proof -
  have "main sample_lib with_domain partial_env [''registerSubdomain.py'', ''www''] =
     (configured sample_lib with_domain partial_env [''registerSubdomain.py'', ''www''])
       \<lparr>locals := (config_locals (dotenv sample_lib partial_env))
           (''subdomain'' \<mapsto> PyStr ([''registerSubdomain.py'', ''www''] ! 1),
            ''client'' \<mapsto> PyProxy (cfg sample_lib partial_env ''DNS_API_URI''),
            ''response'' \<mapsto> PyInt 0,
            ''record_obj'' \<mapsto> zone_record (cfg sample_lib partial_env ''SCHOOL_IP_ADDRESS''),
            ''response'' \<mapsto> PyInt 0),
        events := [proxy_made sample_lib partial_env,
           RemoteCall ''addSubdomain''
             (sub_args sample_lib partial_env (PyStr ''school.example'')
                ([''registerSubdomain.py'', ''www''] ! 1)),
           Sleep 1,
           RemoteCall ''addZoneRecord''
             (zone_args sample_lib partial_env (PyStr ''school.example'')
                ([''registerSubdomain.py'', ''www''] ! 1))]\<rparr>"
    by (rule main_completes)
      (simp_all add: partial_cfg sample_proxy with_domain_def, simp_all add: sample_lib_def)
  then show ?thesis
    by (simp add: partial_cfg)
qed


section \<open>Claims\<close>

text \<open>
  C1 (the shipped script does not do this). The claim: with all five variables set
  and a subdomain argument given, the program issues exactly two remote calls,
  \<^verbatim>\<open>addSubdomain\<close> then \<^verbatim>\<open>addZoneRecord\<close>. On the sample installation, run as a
  script with the argument \<^verbatim>\<open>www\<close>, the proxy is built and then the first call site
  raises \<^verbatim>\<open>NameError\<close> for \<^verbatim>\<open>domain\<close>: no remote call is issued.
\<close>

theorem script_sample_run_issues_no_call:
  "sample_env ''DNS_API_USER'' = Some ''alice'' \<and>
   sample_env ''DNS_API_PASS'' = Some ''s3cret'' \<and>
   sample_env ''SCHOOL_IP_ADDRESS'' = Some ''192.0.2.10'' \<and>
   sample_env ''DNS_API_URI'' = Some ''https://dns.example/xmlrpc'' \<and>
   sample_env ''DOMAIN_SUFFIX'' = Some ''school.example'' \<and>
   raised (script sample_lib sample_env [''registerSubdomain.py'', ''www'']) =
     Some (NameError ''domain'') \<and>
   events (script sample_lib sample_env [''registerSubdomain.py'', ''www'']) =
     [NewServerProxy (PyStr ''https://dns.example/xmlrpc'') ''utf-8'']"
proof -
  have "script sample_lib sample_env [''registerSubdomain.py'', ''www''] =
     (configured sample_lib Map.empty sample_env [''registerSubdomain.py'', ''www''])
       \<lparr>locals := (config_locals (dotenv sample_lib sample_env))
           (''subdomain'' \<mapsto> PyStr ([''registerSubdomain.py'', ''www''] ! 1),
            ''client'' \<mapsto> PyProxy (cfg sample_lib sample_env ''DNS_API_URI'')),
        events := [proxy_made sample_lib sample_env],
        raised := Some (NameError ''domain'')\<rparr>"
    unfolding script_def
    by (rule main_domain_unbound) (simp_all add: sample_cfg sample_proxy)
  then show ?thesis
    by (simp add: sample_cfg) (simp add: sample_env_def)
qed


text \<open>
  C2. \<^verbatim>\<open>domain\<close> is bound neither by the module nor by \<^verbatim>\<open>main\<close>, so the script never
  issues a remote call: whenever a run gets as far as the first call site (an
  argument was given and the proxy was built), evaluating the arguments raises
  \<^verbatim>\<open>NameError\<close> for \<^verbatim>\<open>domain\<close> and the only event so far is the construction of the
  proxy. The same holds at each of the two call sites taken alone (statements 2 and
  5 of \<open>register_calls\<close>): run in any frame where \<^verbatim>\<open>domain\<close> is unbound and the
  receiver and the two arguments before it are bound, each raises that
  \<^verbatim>\<open>NameError\<close> and adds no event.
\<close>

theorem undefined_domain_stops_script:
  "module_globals ''domain'' = None \<and>
   globals (script L env args) ''domain'' = None \<and>
   locals (script L env args) ''domain'' = None \<and>
   (\<forall>m vs. RemoteCall m vs \<notin> set (events (script L env args))) \<and>
   (1 < length args \<and> proxy_init L (cfg L env ''DNS_API_URI'') ''utf-8'' = None \<longrightarrow>
      raised (script L env args) = Some (NameError ''domain'') \<and>
      events (script L env args) = [NewServerProxy (cfg L env ''DNS_API_URI'') ''utf-8'']) \<and>
   (locals fr ''domain'' = None \<and> globals fr ''domain'' = None \<and>
    locals fr ''client'' = Some (PyProxy u) \<and>
    locals fr ''global_api_username'' = Some a \<and>
    locals fr ''global_api_password'' = Some b \<longrightarrow>
      raised ((register_calls L ! 2) fr) = Some (NameError ''domain'') \<and>
      events ((register_calls L ! 2) fr) = events fr \<and>
      raised ((register_calls L ! 5) fr) = Some (NameError ''domain'') \<and>
      events ((register_calls L ! 5) fr) = events fr)"
proof -
  have glob: "module_globals ''domain'' = None"
    by (simp add: module_globals_def)
  have run: "globals (script L env args) ''domain'' = None \<and>
      locals (script L env args) ''domain'' = None \<and>
      (\<forall>m vs. RemoteCall m vs \<notin> set (events (script L env args))) \<and>
      (1 < length args \<and> proxy_init L (cfg L env ''DNS_API_URI'') ''utf-8'' = None \<longrightarrow>
        raised (script L env args) = Some (NameError ''domain'') \<and>
        events (script L env args) = [NewServerProxy (cfg L env ''DNS_API_URI'') ''utf-8''])"
    unfolding script_def
    by (rule main_cases [where L = L and extra = Map.empty and env = env and args = args])
      (simp_all add: glob config_locals_def)
  have site: "raised ((register_calls L ! 2) fr) = Some (NameError ''domain'') \<and>
      events ((register_calls L ! 2) fr) = events fr \<and>
      raised ((register_calls L ! 5) fr) = Some (NameError ''domain'') \<and>
      events ((register_calls L ! 5) fr) = events fr"
    if "locals fr ''domain'' = None" "globals fr ''domain'' = None"
      "locals fr ''client'' = Some (PyProxy u)"
      "locals fr ''global_api_username'' = Some a"
      "locals fr ''global_api_password'' = Some b"
    using that
    by (simp add: register_calls_def assign_def method_call_def var_def)
  from glob run site show ?thesis
    by blast
qed

theorem undefined_domain_stops_script_witness:
  "1 < length [''registerSubdomain.py'', ''www''] \<and>
   proxy_init sample_lib (cfg sample_lib sample_env ''DNS_API_URI'') ''utf-8'' = None \<and>
   raised (script sample_lib sample_env [''registerSubdomain.py'', ''www'']) =
     Some (NameError ''domain'') \<and>
   events (script sample_lib sample_env [''registerSubdomain.py'', ''www'']) =
     [NewServerProxy (PyStr ''https://dns.example/xmlrpc'') ''utf-8''] \<and>
   locals ((start Map.empty sample_env [])
      \<lparr>locals := [''client'' \<mapsto> PyProxy (PyStr ''https://dns.example/xmlrpc''),
         ''global_api_username'' \<mapsto> PyStr ''alice'',
         ''global_api_password'' \<mapsto> PyStr ''s3cret'']\<rparr>) ''domain'' = None \<and>
   raised ((register_calls sample_lib ! 5)
     ((start Map.empty sample_env [])
      \<lparr>locals := [''client'' \<mapsto> PyProxy (PyStr ''https://dns.example/xmlrpc''),
         ''global_api_username'' \<mapsto> PyStr ''alice'',
         ''global_api_password'' \<mapsto> PyStr ''s3cret'']\<rparr>)) = Some (NameError ''domain'')"
  using undefined_domain_stops_script
    [of sample_lib sample_env "[''registerSubdomain.py'', ''www'']"
      "(start Map.empty sample_env [])
        \<lparr>locals := [''client'' \<mapsto> PyProxy (PyStr ''https://dns.example/xmlrpc''),
           ''global_api_username'' \<mapsto> PyStr ''alice'',
           ''global_api_password'' \<mapsto> PyStr ''s3cret'']\<rparr>"
      "PyStr ''https://dns.example/xmlrpc''" "PyStr ''alice''" "PyStr ''s3cret''"]
  by (simp add: sample_cfg sample_proxy module_globals_def)


text \<open>
  C3. In every run of \<^verbatim>\<open>main\<close> in which both remote calls are issued, the events are
  exactly: the proxy is built, \<^verbatim>\<open>addSubdomain\<close> is called, \<^verbatim>\<open>time.sleep(1)\<close>,
  \<^verbatim>\<open>addZoneRecord\<close> is called. The sleep sits between the two calls and nowhere
  else, and its argument is the constant 1 whatever the library, the environment,
  the arguments and the first call's answer are. (How long the sleep really lasts is
  outside the model; what is proved is the call \<^verbatim>\<open>time.sleep(1)\<close> and its place. In
  the script as shipped no run gets that far, see C2; the runs that do are those of
  \<^verbatim>\<open>main\<close> in a module where \<^verbatim>\<open>domain\<close> is bound.)
\<close>

theorem sleep_one_between_calls:
  "(RemoteCall ''addSubdomain'' a \<in> set (events (main L extra env args)) \<and>
    RemoteCall ''addZoneRecord'' b \<in> set (events (main L extra env args)) \<longrightarrow>
      events (main L extra env args) =
        [NewServerProxy (cfg L env ''DNS_API_URI'') ''utf-8'',
         RemoteCall ''addSubdomain'' a, Sleep 1, RemoteCall ''addZoneRecord'' b]) \<and>
   (Sleep n \<in> set (events (main L extra env args)) \<longrightarrow> n = 1)"
  by (rule main_cases [where L = L and extra = extra and env = env and args = args])
    simp_all

theorem sleep_one_between_calls_witness:
  "RemoteCall ''addSubdomain''
      [PyStr ''alice'', PyStr ''s3cret'', PyStr ''school.example'', PyStr ''www'']
     \<in> set (events (main sample_lib with_domain sample_env [''registerSubdomain.py'', ''www''])) \<and>
   RemoteCall ''addZoneRecord''
      [PyStr ''alice'', PyStr ''s3cret'', PyStr ''school.example'', PyStr ''www'',
       zone_record (PyStr ''192.0.2.10'')]
     \<in> set (events (main sample_lib with_domain sample_env [''registerSubdomain.py'', ''www''])) \<and>
   events (main sample_lib with_domain sample_env [''registerSubdomain.py'', ''www'']) =
     [NewServerProxy (PyStr ''https://dns.example/xmlrpc'') ''utf-8'',
      RemoteCall ''addSubdomain''
        [PyStr ''alice'', PyStr ''s3cret'', PyStr ''school.example'', PyStr ''www''],
      Sleep 1,
      RemoteCall ''addZoneRecord''
        [PyStr ''alice'', PyStr ''s3cret'', PyStr ''school.example'', PyStr ''www'',
         zone_record (PyStr ''192.0.2.10'')]]"
proof -
  let ?run = "main sample_lib with_domain sample_env [''registerSubdomain.py'', ''www'']"
  let ?a = "[PyStr ''alice'', PyStr ''s3cret'', PyStr ''school.example'', PyStr ''www'']"
  let ?b = "[PyStr ''alice'', PyStr ''s3cret'', PyStr ''school.example'', PyStr ''www'',
       zone_record (PyStr ''192.0.2.10'')]"
  have ev: "events ?run =
     [NewServerProxy (PyStr ''https://dns.example/xmlrpc'') ''utf-8'',
      RemoteCall ''addSubdomain'' ?a, Sleep 1, RemoteCall ''addZoneRecord'' ?b]"
    using sample_run by simp
  have 1: "RemoteCall ''addSubdomain'' ?a \<in> set (events ?run)"
    and 2: "RemoteCall ''addZoneRecord'' ?b \<in> set (events ?run)"
    by (simp_all add: ev)
  from 1 2 sleep_one_between_calls
    [of ?a sample_lib with_domain sample_env "[''registerSubdomain.py'', ''www'']" ?b 1]
  show ?thesis
    by (simp add: sample_cfg)
qed


text \<open>
  C4. Whenever \<^verbatim>\<open>main\<close> calls \<^verbatim>\<open>addZoneRecord\<close>, the fifth argument is the dictionary
  with \<^verbatim>\<open>type\<close> \<^verbatim>\<open>'A'\<close>, \<^verbatim>\<open>ttl\<close> 3600, \<^verbatim>\<open>priority\<close> 1, \<^verbatim>\<open>record_id\<close> 10 and, as
  \<^verbatim>\<open>rdata\<close>, what \<^verbatim>\<open>os.getenv('SCHOOL_IP_ADDRESS')\<close> returned. The display itself,
  evaluated in any frame where \<^verbatim>\<open>school_ip_address\<close> is bound to \<open>ip\<close>, yields that
  dictionary with \<open>ip\<close> as \<^verbatim>\<open>rdata\<close>, raises nothing and changes nothing: the other
  four fields are constants.
\<close>

theorem zone_record_is_fixed_but_rdata:
  "(RemoteCall ''addZoneRecord'' vs \<in> set (events (main L extra env args)) \<longrightarrow>
      length vs = 5 \<and>
      vs ! 4 =
        PyDict [(''type'', PyStr ''A''), (''ttl'', PyInt 3600), (''priority'', PyInt 1),
                (''rdata'', envval (dotenv L env) ''SCHOOL_IP_ADDRESS''),
                (''record_id'', PyInt 10)]) \<and>
   (locals fr ''school_ip_address'' = Some ip \<longrightarrow>
      record_obj fr =
        (Inr (PyDict [(''type'', PyStr ''A''), (''ttl'', PyInt 3600), (''priority'', PyInt 1),
                      (''rdata'', ip), (''record_id'', PyInt 10)]), fr))"
proof -
  have "RemoteCall ''addZoneRecord'' vs \<in> set (events (main L extra env args)) \<longrightarrow>
      length vs = 5 \<and> vs ! 4 = zone_record (cfg L env ''SCHOOL_IP_ADDRESS'')"
    by (rule main_cases [where L = L and extra = extra and env = env and args = args])
      auto
  moreover have "record_obj fr = (Inr (zone_record ip), fr)"
    if "locals fr ''school_ip_address'' = Some ip"
    using that by (simp add: record_obj_def dict_display_def lit_def var_def)
  ultimately show ?thesis
    by blast
qed

theorem zone_record_is_fixed_but_rdata_witness:
  "RemoteCall ''addZoneRecord''
      [PyStr ''alice'', PyStr ''s3cret'', PyStr ''school.example'', PyStr ''www'',
       PyDict [(''type'', PyStr ''A''), (''ttl'', PyInt 3600), (''priority'', PyInt 1),
               (''rdata'', PyStr ''192.0.2.10''), (''record_id'', PyInt 10)]]
     \<in> set (events (main sample_lib with_domain sample_env [''registerSubdomain.py'', ''www''])) \<and>
   locals ((start Map.empty sample_env [])
      \<lparr>locals := [''school_ip_address'' \<mapsto> PyNone]\<rparr>) ''school_ip_address'' = Some PyNone \<and>
   record_obj ((start Map.empty sample_env [])\<lparr>locals := [''school_ip_address'' \<mapsto> PyNone]\<rparr>) =
     (Inr (PyDict [(''type'', PyStr ''A''), (''ttl'', PyInt 3600), (''priority'', PyInt 1),
                   (''rdata'', PyNone), (''record_id'', PyInt 10)]),
      (start Map.empty sample_env [])\<lparr>locals := [''school_ip_address'' \<mapsto> PyNone]\<rparr>)"
proof -
  let ?run = "main sample_lib with_domain sample_env [''registerSubdomain.py'', ''www'']"
  let ?vs = "[PyStr ''alice'', PyStr ''s3cret'', PyStr ''school.example'', PyStr ''www'',
       zone_record (PyStr ''192.0.2.10'')]"
  let ?fr = "(start Map.empty sample_env [])\<lparr>locals := [''school_ip_address'' \<mapsto> PyNone]\<rparr>"
  have 1: "RemoteCall ''addZoneRecord'' ?vs \<in> set (events ?run)"
    using sample_run by simp
  have 2: "locals ?fr ''school_ip_address'' = Some PyNone"
    by simp
  from 1 2 zone_record_is_fixed_but_rdata
    [of ?vs sample_lib with_domain sample_env "[''registerSubdomain.py'', ''www'']" ?fr PyNone]
  show ?thesis
    by simp
qed


text \<open>
  C5. With no positional argument (\<^verbatim>\<open>sys.argv\<close> has at most its first entry),
  \<^verbatim>\<open>main\<close> raises \<^verbatim>\<open>IndexError\<close> at \<^verbatim>\<open>sys.argv[1]\<close>: no proxy has been built, no
  remote call issued and no sleep made, and \<^verbatim>\<open>client\<close> is still unbound. This
  holds in every module namespace, so in particular for the script.
\<close>

theorem missing_argument_raises_index_error:
  "length args \<le> 1 \<Longrightarrow>
   raised (main L extra env args) = Some IndexError \<and>
   events (main L extra env args) = [] \<and>
   locals (main L extra env args) ''client'' = None \<and>
   raised (script L env args) = Some IndexError \<and>
   events (script L env args) = []"
proof -
  assume "length args \<le> 1"
  then have short: "\<not> 1 < length args"
    by simp
  have "locals (main L extra env args) ''client'' = None"
    by (simp add: main_no_arg [OF short] config_locals_def)
  then show ?thesis
    by (simp add: script_def main_no_arg [OF short])
qed

theorem missing_argument_raises_index_error_witness:
  "length [''registerSubdomain.py''] \<le> 1 \<and>
   raised (script sample_lib sample_env [''registerSubdomain.py'']) = Some IndexError \<and>
   events (script sample_lib sample_env [''registerSubdomain.py'']) = []"
  using missing_argument_raises_index_error
    [of "[''registerSubdomain.py'']" sample_lib Map.empty sample_env]
  by simp


text \<open>
  C6. \<^verbatim>\<open>main\<close> has no handler. Whichever statement of its body raises, the run ends
  in the frame of that raise: the fault stays raised and nothing after it is
  executed. In particular: a missing argument ends the run with \<^verbatim>\<open>IndexError\<close>; an
  unset \<^verbatim>\<open>DNS_API_URI\<close> reaches the proxy constructor as \<^verbatim>\<open>None\<close> and the fault the
  constructor raises for it ends the run before any event; a fault of the first
  remote call (network, server or response parsing) ends the run with no sleep and
  no second call; a fault of the second ends it too. The trace holds no other
  kind of event, so nothing is logged or printed by the program itself.
\<close>

theorem faults_propagate_unhandled:
  "(main_body L = pre @ s # post \<and>
    raised (exec pre (start extra env args)) = None \<and>
    raised (s (exec pre (start extra env args))) = Some e \<longrightarrow>
      main L extra env args = s (exec pre (start extra env args)) \<and>
      raised (main L extra env args) = Some e) \<and>
   (\<not> 1 < length args \<longrightarrow>
      raised (main L extra env args) = Some IndexError \<and>
      events (main L extra env args) = []) \<and>
   (1 < length args \<and> dotenv L env ''DNS_API_URI'' = None \<and>
    proxy_init L PyNone ''utf-8'' = Some e1 \<longrightarrow>
      raised (main L extra env args) = Some e1 \<and>
      events (main L extra env args) = []) \<and>
   (1 < length args \<and> proxy_init L (cfg L env ''DNS_API_URI'') ''utf-8'' = None \<and>
    extra ''domain'' = Some d \<and> first_answer L env d (args ! 1) = Inl e2 \<longrightarrow>
      raised (main L extra env args) = Some e2 \<and>
      events (main L extra env args) =
        [NewServerProxy (cfg L env ''DNS_API_URI'') ''utf-8'',
         RemoteCall ''addSubdomain''
           [cfg L env ''DNS_API_USER'', cfg L env ''DNS_API_PASS'', d, PyStr (args ! 1)]]) \<and>
   (1 < length args \<and> proxy_init L (cfg L env ''DNS_API_URI'') ''utf-8'' = None \<and>
    extra ''domain'' = Some d \<and> first_answer L env d (args ! 1) = Inr r \<and>
    second_answer L env d (args ! 1) = Inl e3 \<longrightarrow>
      raised (main L extra env args) = Some e3 \<and>
      events (main L extra env args) =
        [NewServerProxy (cfg L env ''DNS_API_URI'') ''utf-8'',
         RemoteCall ''addSubdomain''
           [cfg L env ''DNS_API_USER'', cfg L env ''DNS_API_PASS'', d, PyStr (args ! 1)],
         Sleep 1,
         RemoteCall ''addZoneRecord''
           [cfg L env ''DNS_API_USER'', cfg L env ''DNS_API_PASS'', d, PyStr (args ! 1),
            zone_record (cfg L env ''SCHOOL_IP_ADDRESS'')]])"
proof -
  have generic: "main L extra env args = s (exec pre (start extra env args)) \<and>
      raised (main L extra env args) = Some e"
    if "main_body L = pre @ s # post"
      and "raised (exec pre (start extra env args)) = None"
      and "raised (s (exec pre (start extra env args))) = Some e"
  proof -
    have "exec (pre @ s # post) (start extra env args) = s (exec pre (start extra env args))"
      using that(2,3) by (intro exec_stops) simp_all
    with that show ?thesis
      by (simp add: main_def)
  qed
  have no_arg: "raised (main L extra env args) = Some IndexError \<and>
      events (main L extra env args) = []"
    if "\<not> 1 < length args"
    by (simp add: main_no_arg [OF that])
  have no_uri: "raised (main L extra env args) = Some e1 \<and> events (main L extra env args) = []"
    if "1 < length args" "dotenv L env ''DNS_API_URI'' = None"
      "proxy_init L PyNone ''utf-8'' = Some e1"
  proof -
    from that(2) have "cfg L env ''DNS_API_URI'' = PyNone"
      by (simp add: envval_def)
    with that(3) have "proxy_init L (cfg L env ''DNS_API_URI'') ''utf-8'' = Some e1"
      by simp
    from main_proxy_fails [OF that(1) this] show ?thesis
      by simp
  qed
  have first: "raised (main L extra env args) = Some e2 \<and>
      events (main L extra env args) =
        [proxy_made L env, RemoteCall ''addSubdomain'' (sub_args L env d (args ! 1))]"
    if "1 < length args" "proxy_init L (cfg L env ''DNS_API_URI'') ''utf-8'' = None"
      "extra ''domain'' = Some d" "first_answer L env d (args ! 1) = Inl e2"
    by (simp add: main_first_call_fails [where extra = extra, OF that])
  have second: "raised (main L extra env args) = Some e3 \<and>
      events (main L extra env args) =
        [proxy_made L env, RemoteCall ''addSubdomain'' (sub_args L env d (args ! 1)),
         Sleep 1, RemoteCall ''addZoneRecord'' (zone_args L env d (args ! 1))]"
    if "1 < length args" "proxy_init L (cfg L env ''DNS_API_URI'') ''utf-8'' = None"
      "extra ''domain'' = Some d" "first_answer L env d (args ! 1) = Inr r"
      "second_answer L env d (args ! 1) = Inl e3"
    by (simp add: main_second_call_fails [where extra = extra, OF that])
  from generic no_arg no_uri first second show ?thesis
    by blast
qed

theorem faults_propagate_unhandled_witness:
  "main_body sample_lib =
     load_config sample_lib @ assign ''subdomain'' (argv_at 1) # tl (register_calls sample_lib) \<and>
   raised (exec (load_config sample_lib) (start Map.empty sample_env [''registerSubdomain.py''])) =
     None \<and>
   main sample_lib Map.empty sample_env [''registerSubdomain.py''] =
     assign ''subdomain'' (argv_at 1)
       (exec (load_config sample_lib) (start Map.empty sample_env [''registerSubdomain.py''])) \<and>
   raised (main sample_lib Map.empty sample_env [''registerSubdomain.py'']) = Some IndexError \<and>
   raised (main sample_lib Map.empty (sample_env(''DNS_API_URI'' := None))
             [''registerSubdomain.py'', ''www'']) = Some (LibError ''TypeError'') \<and>
   events (main sample_lib Map.empty (sample_env(''DNS_API_URI'' := None))
             [''registerSubdomain.py'', ''www'']) = [] \<and>
   raised (main offline_lib with_domain sample_env [''registerSubdomain.py'', ''www'']) =
     Some (LibError ''ConnectionRefusedError'') \<and>
   events (main offline_lib with_domain sample_env [''registerSubdomain.py'', ''www'']) =
     [NewServerProxy (PyStr ''https://dns.example/xmlrpc'') ''utf-8'',
      RemoteCall ''addSubdomain''
        [PyStr ''alice'', PyStr ''s3cret'', PyStr ''school.example'', PyStr ''www'']] \<and>
   raised (main flaky_lib with_domain sample_env [''registerSubdomain.py'', ''www'']) =
     Some (LibError ''Fault'') \<and>
   events (main flaky_lib with_domain sample_env [''registerSubdomain.py'', ''www'']) =
     [NewServerProxy (PyStr ''https://dns.example/xmlrpc'') ''utf-8'',
      RemoteCall ''addSubdomain''
        [PyStr ''alice'', PyStr ''s3cret'', PyStr ''school.example'', PyStr ''www''],
      Sleep 1,
      RemoteCall ''addZoneRecord''
        [PyStr ''alice'', PyStr ''s3cret'', PyStr ''school.example'', PyStr ''www'',
         zone_record (PyStr ''192.0.2.10'')]]"
proof -
  let ?short = "[''registerSubdomain.py'']"
  let ?args = "[''registerSubdomain.py'', ''www'']"
  let ?pre = "load_config sample_lib"
  let ?s = "assign ''subdomain'' (argv_at 1)"
  let ?nouri = "sample_env(''DNS_API_URI'' := None)"
  let ?d = "PyStr ''school.example''"
  have split: "main_body sample_lib = ?pre @ ?s # tl (register_calls sample_lib)"
    by (simp add: main_body_def register_calls_def)
  have pre: "raised (exec ?pre (start Map.empty sample_env ?short)) = None"
    by (simp add: load_config_exec)
  have s: "raised (?s (exec ?pre (start Map.empty sample_env ?short))) = Some IndexError"
    by (simp add: load_config_exec assign_def argv_at_def)
  have generic: "main sample_lib Map.empty sample_env ?short =
      ?s (exec ?pre (start Map.empty sample_env ?short)) \<and>
      raised (main sample_lib Map.empty sample_env ?short) = Some IndexError"
    using split pre s
      faults_propagate_unhandled [where L = sample_lib and pre = ?pre and s = ?s
        and post = "tl (register_calls sample_lib)" and extra = Map.empty
        and env = sample_env and args = ?short and e = IndexError]
    by blast
  have "dotenv sample_lib ?nouri ''DNS_API_URI'' = None"
    by (simp add: sample_lib_def)
  then have no_uri: "raised (main sample_lib Map.empty ?nouri ?args) = Some (LibError ''TypeError'') \<and>
      events (main sample_lib Map.empty ?nouri ?args) = []"
    using sample_proxy(2)
      faults_propagate_unhandled [where L = sample_lib and extra = Map.empty
        and env = ?nouri and args = ?args and ?e1.0 = "LibError ''TypeError''"]
    by simp
  have "first_answer offline_lib sample_env ?d (?args ! 1) =
      Inl (LibError ''ConnectionRefusedError'')"
    by (simp add: offline_cfg)
  then have first: "raised (main offline_lib with_domain sample_env ?args) =
        Some (LibError ''ConnectionRefusedError'') \<and>
      events (main offline_lib with_domain sample_env ?args) =
        [proxy_made offline_lib sample_env,
         RemoteCall ''addSubdomain'' (sub_args offline_lib sample_env ?d (?args ! 1))]"
    using faults_propagate_unhandled [where L = offline_lib and extra = with_domain
        and env = sample_env and args = ?args and d = ?d
        and ?e2.0 = "LibError ''ConnectionRefusedError''"]
    by (simp add: offline_cfg with_domain_def)
  have "first_answer flaky_lib sample_env ?d (?args ! 1) = Inr (PyInt 0)"
    and "second_answer flaky_lib sample_env ?d (?args ! 1) = Inl (LibError ''Fault'')"
    by (simp_all add: flaky_cfg)
  then have second: "raised (main flaky_lib with_domain sample_env ?args) =
        Some (LibError ''Fault'') \<and>
      events (main flaky_lib with_domain sample_env ?args) =
        [proxy_made flaky_lib sample_env,
         RemoteCall ''addSubdomain'' (sub_args flaky_lib sample_env ?d (?args ! 1)),
         Sleep 1,
         RemoteCall ''addZoneRecord'' (zone_args flaky_lib sample_env ?d (?args ! 1))]"
    using faults_propagate_unhandled [where L = flaky_lib and extra = with_domain
        and env = sample_env and args = ?args and d = ?d and r = "PyInt 0"
        and ?e3.0 = "LibError ''Fault''"]
    by (simp add: flaky_cfg with_domain_def)
  from split pre s generic no_uri first second show ?thesis
    by (simp add: offline_cfg flaky_cfg)
qed


text \<open>
  C7. Configuration loading cannot fail and checks nothing. After lines 11 to 17 no
  fault is raised and no event has happened, and each of the five locals holds
  exactly what \<^verbatim>\<open>os.getenv\<close> returned: the string when the variable is set, \<^verbatim>\<open>None\<close>
  when it is not (the environment is the one \<^verbatim>\<open>load_dotenv()\<close> leaves). The \<^verbatim>\<open>None\<close>
  values then travel on unchecked: an unset \<^verbatim>\<open>DNS_API_URI\<close> reaches the proxy
  constructor as \<^verbatim>\<open>None\<close>, so that what happens next is the library's answer to
  it, and unset credentials or an unset address appear as \<^verbatim>\<open>None\<close> in the arguments
  of every remote call that is issued.
\<close>

theorem config_loading_validates_nothing:
  "exec (load_config L) (start extra env args) =
     (start extra env args)
       \<lparr>environ := dotenv L env,
        locals :=
          [''global_api_username'' \<mapsto> envval (dotenv L env) ''DNS_API_USER'',
           ''global_api_password'' \<mapsto> envval (dotenv L env) ''DNS_API_PASS'',
           ''school_ip_address'' \<mapsto> envval (dotenv L env) ''SCHOOL_IP_ADDRESS'',
           ''global_dns_uri'' \<mapsto> envval (dotenv L env) ''DNS_API_URI'',
           ''domain_suffix'' \<mapsto> envval (dotenv L env) ''DOMAIN_SUFFIX'']\<rparr> \<and>
   raised (exec (load_config L) (start extra env args)) = None \<and>
   events (exec (load_config L) (start extra env args)) = [] \<and>
   (dotenv L env k = None \<longrightarrow> envval (dotenv L env) k = PyNone) \<and>
   (1 < length args \<and> dotenv L env ''DNS_API_URI'' = None \<longrightarrow>
      (case proxy_init L PyNone ''utf-8'' of
         Some e \<Rightarrow>
           raised (main L extra env args) = Some e \<and> events (main L extra env args) = []
       | None \<Rightarrow>
           events (main L extra env args) \<noteq> [] \<and>
           hd (events (main L extra env args)) = NewServerProxy PyNone ''utf-8'')) \<and>
   (RemoteCall m vs \<in> set (events (main L extra env args)) \<longrightarrow>
      (dotenv L env ''DNS_API_USER'' = None \<longrightarrow> vs ! 0 = PyNone) \<and>
      (dotenv L env ''DNS_API_PASS'' = None \<longrightarrow> vs ! 1 = PyNone) \<and>
      (dotenv L env ''SCHOOL_IP_ADDRESS'' = None \<and> m = ''addZoneRecord'' \<longrightarrow>
         vs ! 4 = zone_record PyNone))"
proof -
  have load: "exec (load_config L) (start extra env args) =
     (start extra env args)
       \<lparr>environ := dotenv L env,
        locals :=
          [''global_api_username'' \<mapsto> envval (dotenv L env) ''DNS_API_USER'',
           ''global_api_password'' \<mapsto> envval (dotenv L env) ''DNS_API_PASS'',
           ''school_ip_address'' \<mapsto> envval (dotenv L env) ''SCHOOL_IP_ADDRESS'',
           ''global_dns_uri'' \<mapsto> envval (dotenv L env) ''DNS_API_URI'',
           ''domain_suffix'' \<mapsto> envval (dotenv L env) ''DOMAIN_SUFFIX'']\<rparr> \<and>
     raised (exec (load_config L) (start extra env args)) = None \<and>
     events (exec (load_config L) (start extra env args)) = []"
    by (simp add: load_config_exec config_locals_def)
  have miss: "envval (dotenv L env) k = PyNone" if "dotenv L env k = None" for k
    using that by (simp add: envval_def)
  have uri: "case proxy_init L PyNone ''utf-8'' of
         Some e \<Rightarrow>
           raised (main L extra env args) = Some e \<and> events (main L extra env args) = []
       | None \<Rightarrow>
           events (main L extra env args) \<noteq> [] \<and>
           hd (events (main L extra env args)) = NewServerProxy PyNone ''utf-8''"
    if "1 < length args" "dotenv L env ''DNS_API_URI'' = None"
  proof -
    have none: "cfg L env ''DNS_API_URI'' = PyNone"
      using that(2) by (rule miss)
    show ?thesis
      by (rule main_cases [where L = L and extra = extra and env = env and args = args])
        (use that(1) none in \<open>simp_all\<close>)
  qed
  have calls: "(dotenv L env ''DNS_API_USER'' = None \<longrightarrow> vs ! 0 = PyNone) \<and>
      (dotenv L env ''DNS_API_PASS'' = None \<longrightarrow> vs ! 1 = PyNone) \<and>
      (dotenv L env ''SCHOOL_IP_ADDRESS'' = None \<and> m = ''addZoneRecord'' \<longrightarrow>
         vs ! 4 = zone_record PyNone)"
    if "RemoteCall m vs \<in> set (events (main L extra env args))"
    using that
    by (rule_tac main_cases [where L = L and extra = extra and env = env and args = args])
      (auto simp add: envval_def)
  from load miss uri calls show ?thesis
    by blast
qed

theorem config_loading_validates_nothing_witness:
  "dotenv sample_lib partial_env ''DNS_API_USER'' = None \<and>
   envval (dotenv sample_lib partial_env) ''DNS_API_USER'' = PyNone \<and>
   raised (exec (load_config sample_lib)
     (start Map.empty partial_env [''registerSubdomain.py'', ''www''])) = None \<and>
   1 < length [''registerSubdomain.py'', ''www''] \<and>
   dotenv sample_lib Map.empty ''DNS_API_URI'' = None \<and>
   raised (main sample_lib Map.empty Map.empty [''registerSubdomain.py'', ''www'']) =
     Some (LibError ''TypeError'') \<and>
   events (main sample_lib Map.empty Map.empty [''registerSubdomain.py'', ''www'']) = [] \<and>
   RemoteCall ''addZoneRecord''
      [PyNone, PyNone, PyStr ''school.example'', PyStr ''www'', zone_record PyNone]
     \<in> set (events (main sample_lib with_domain partial_env [''registerSubdomain.py'', ''www'']))"
proof -
  let ?args = "[''registerSubdomain.py'', ''www'']"
  let ?vs = "[PyNone, PyNone, PyStr ''school.example'', PyStr ''www'', zone_record PyNone]"
  have unset: "dotenv sample_lib Map.empty ''DNS_API_URI'' = None"
    by (simp add: sample_lib_def)
  have call: "RemoteCall ''addZoneRecord'' ?vs
      \<in> set (events (main sample_lib with_domain partial_env ?args))"
    by (simp add: partial_run)
  have a: "raised (main sample_lib Map.empty Map.empty ?args) = Some (LibError ''TypeError'') \<and>
      events (main sample_lib Map.empty Map.empty ?args) = []"
    using unset sample_proxy(2)
      config_loading_validates_nothing [where L = sample_lib and extra = Map.empty
        and env = Map.empty and args = ?args]
    by simp
  have b: "envval (dotenv sample_lib partial_env) ''DNS_API_USER'' = PyNone \<and>
      raised (exec (load_config sample_lib) (start Map.empty partial_env ?args)) = None"
    using partial_cfg(1)
      config_loading_validates_nothing [where L = sample_lib and extra = Map.empty
        and env = partial_env and args = ?args and k = "''DNS_API_USER''"]
    by blast
  have c: "?vs ! 0 = PyNone \<and> ?vs ! 1 = PyNone \<and> ?vs ! 4 = zone_record PyNone"
    using call partial_cfg(1,2,3)
      config_loading_validates_nothing [where L = sample_lib and extra = with_domain
        and env = partial_env and args = ?args and m = "''addZoneRecord''" and vs = ?vs]
    by blast
  from a b c call unset partial_cfg(1) show ?thesis
    by simp
qed


text \<open>
  C8. Every remote call \<^verbatim>\<open>main\<close> issues has at least two arguments, the first being
  what \<^verbatim>\<open>os.getenv('DNS_API_USER')\<close> returned and the second what
  \<^verbatim>\<open>os.getenv('DNS_API_PASS')\<close> returned: when the variables are set, the very
  strings of the environment. This holds for \<^verbatim>\<open>addSubdomain\<close> and for
  \<^verbatim>\<open>addZoneRecord\<close> alike.
\<close>

theorem credentials_lead_every_call:
  "RemoteCall m vs \<in> set (events (main L extra env args)) \<Longrightarrow>
   2 \<le> length vs \<and>
   vs ! 0 = envval (dotenv L env) ''DNS_API_USER'' \<and>
   vs ! 1 = envval (dotenv L env) ''DNS_API_PASS'' \<and>
   (dotenv L env ''DNS_API_USER'' = Some u \<longrightarrow> vs ! 0 = PyStr u) \<and>
   (dotenv L env ''DNS_API_PASS'' = Some p \<longrightarrow> vs ! 1 = PyStr p)"
  by (rule main_cases [where L = L and extra = extra and env = env and args = args])
    (auto simp add: envval_def)

theorem credentials_lead_every_call_witness:
  "RemoteCall ''addSubdomain''
      [PyStr ''alice'', PyStr ''s3cret'', PyStr ''school.example'', PyStr ''www'']
     \<in> set (events (main sample_lib with_domain sample_env [''registerSubdomain.py'', ''www''])) \<and>
   RemoteCall ''addZoneRecord''
      [PyStr ''alice'', PyStr ''s3cret'', PyStr ''school.example'', PyStr ''www'',
       zone_record (PyStr ''192.0.2.10'')]
     \<in> set (events (main sample_lib with_domain sample_env [''registerSubdomain.py'', ''www''])) \<and>
   dotenv sample_lib sample_env ''DNS_API_USER'' = Some ''alice'' \<and>
   dotenv sample_lib sample_env ''DNS_API_PASS'' = Some ''s3cret'' \<and>
   envval (dotenv sample_lib sample_env) ''DNS_API_USER'' = PyStr ''alice'' \<and>
   envval (dotenv sample_lib sample_env) ''DNS_API_PASS'' = PyStr ''s3cret''"
proof -
  let ?args = "[''registerSubdomain.py'', ''www'']"
  let ?a = "[PyStr ''alice'', PyStr ''s3cret'', PyStr ''school.example'', PyStr ''www'']"
  let ?b = "[PyStr ''alice'', PyStr ''s3cret'', PyStr ''school.example'', PyStr ''www'',
       zone_record (PyStr ''192.0.2.10'')]"
  have 1: "RemoteCall ''addSubdomain'' ?a
      \<in> set (events (main sample_lib with_domain sample_env ?args))"
    and 2: "RemoteCall ''addZoneRecord'' ?b
      \<in> set (events (main sample_lib with_domain sample_env ?args))"
    using sample_run by simp_all
  have env: "dotenv sample_lib sample_env ''DNS_API_USER'' = Some ''alice''"
    "dotenv sample_lib sample_env ''DNS_API_PASS'' = Some ''s3cret''"
    by (simp_all add: sample_lib_def sample_env_def)
  from credentials_lead_every_call [OF 1, of "''alice''" "''s3cret''"]
    credentials_lead_every_call [OF 2, of "''alice''" "''s3cret''"] 1 2 env
  show ?thesis
    by simp
qed


text \<open>
  C9 (the shipped script does not do this). The claim: whatever string
  \<^verbatim>\<open>sys.argv[1]\<close> is, the program passes it unchanged as the subdomain parameter of
  both remote calls. On the sample installation, run as a script with the argument
  \<^verbatim>\<open>' not a.label! '\<close>, the string is bound to \<^verbatim>\<open>subdomain\<close> unchanged and the proxy
  is built, but the first call site raises \<^verbatim>\<open>NameError\<close> for \<^verbatim>\<open>domain\<close>, which
  stands before \<^verbatim>\<open>subdomain\<close> in the argument list: the string is passed to no
  remote call, since none is issued. This is the defect of C1. The same run of
  \<^verbatim>\<open>main\<close> in a module where \<^verbatim>\<open>domain\<close> is bound issues both calls, each with the
  string unchanged as its fourth argument: that is what the code sets out to do.
\<close>

theorem script_passes_subdomain_to_no_call:
  "locals (script sample_lib sample_env [''registerSubdomain.py'', '' not a.label! ''])
     ''subdomain'' = Some (PyStr '' not a.label! '') \<and>
   raised (script sample_lib sample_env [''registerSubdomain.py'', '' not a.label! '']) =
     Some (NameError ''domain'') \<and>
   events (script sample_lib sample_env [''registerSubdomain.py'', '' not a.label! '']) =
     [NewServerProxy (PyStr ''https://dns.example/xmlrpc'') ''utf-8''] \<and>
   events (main sample_lib with_domain sample_env [''registerSubdomain.py'', '' not a.label! '']) =
     [NewServerProxy (PyStr ''https://dns.example/xmlrpc'') ''utf-8'',
      RemoteCall ''addSubdomain''
        [PyStr ''alice'', PyStr ''s3cret'', PyStr ''school.example'', PyStr '' not a.label! ''],
      Sleep 1,
      RemoteCall ''addZoneRecord''
        [PyStr ''alice'', PyStr ''s3cret'', PyStr ''school.example'', PyStr '' not a.label! '',
         zone_record (PyStr ''192.0.2.10'')]]"
proof -
  let ?odd = "[''registerSubdomain.py'', '' not a.label! '']"
  let ?d = "PyStr ''school.example''"
  have px: "proxy_init sample_lib (cfg sample_lib sample_env ''DNS_API_URI'') ''utf-8'' = None"
    by (simp add: sample_cfg sample_proxy)
  have shipped: "script sample_lib sample_env ?odd =
     (configured sample_lib Map.empty sample_env ?odd)
       \<lparr>locals := (config_locals (dotenv sample_lib sample_env))
           (''subdomain'' \<mapsto> PyStr (?odd ! 1),
            ''client'' \<mapsto> PyProxy (cfg sample_lib sample_env ''DNS_API_URI'')),
        events := [proxy_made sample_lib sample_env],
        raised := Some (NameError ''domain'')\<rparr>"
    unfolding script_def
    by (rule main_domain_unbound) (simp_all add: px)
  have ans: "first_answer sample_lib sample_env ?d (?odd ! 1) = Inr (PyInt 0)"
    and ans2: "second_answer sample_lib sample_env ?d (?odd ! 1) = Inr (PyInt 0)"
    by (simp_all add: sample_lib_def)
  have dom: "with_domain ''domain'' = Some ?d"
    by (simp add: with_domain_def)
  have len: "1 < length ?odd"
    by simp
  have bound: "events (main sample_lib with_domain sample_env ?odd) =
        [proxy_made sample_lib sample_env,
         RemoteCall ''addSubdomain'' (sub_args sample_lib sample_env ?d (?odd ! 1)),
         Sleep 1, RemoteCall ''addZoneRecord'' (zone_args sample_lib sample_env ?d (?odd ! 1))]"
    by (simp add: main_completes [where extra = with_domain, OF len px dom ans ans2])
  from shipped bound show ?thesis
    by (simp add: sample_cfg)
qed

text \<open>
  C10. Two invocations with the same environment whose argument lists agree on the
  slice \<^verbatim>\<open>sys.argv[1:2]\<close> (the same \<^verbatim>\<open>sys.argv[1]\<close>, or none in both) behave alike,
  whatever the program name and the further arguments are: the same events with
  the same arguments in the same order, the same fault or none, and the same
  locals at the end. The library is the same function in both runs, so the same
  requests get the same answers.
\<close>

theorem further_arguments_are_ignored:
  "take 1 (drop 1 a) = take 1 (drop 1 b) \<Longrightarrow>
   events (main L extra env a) = events (main L extra env b) \<and>
   raised (main L extra env a) = raised (main L extra env b) \<and>
   locals (main L extra env a) = locals (main L extra env b) \<and>
   events (script L env a) = events (script L env b) \<and>
   raised (script L env a) = raised (script L env b)"
proof -
  assume same: "take 1 (drop 1 a) = take 1 (drop 1 b)"
  then have "(if 1 < length a then [a ! 1] else []) = (if 1 < length b then [b ! 1] else [])"
    by (simp only: argv_slice)
  then have len: "1 < length a \<longleftrightarrow> 1 < length b"
    and at: "1 < length a \<Longrightarrow> a ! 1 = b ! 1"
    by (auto split: if_splits)
  have run: "events (main L x env a) = events (main L x env b) \<and>
      raised (main L x env a) = raised (main L x env b) \<and>
      locals (main L x env a) = locals (main L x env b)" for x
  proof (cases rule: main_cases [where L = L and extra = x and env = env and args = a])
    case no_arg
    then have "\<not> 1 < length b"
      using len by simp
    from main_no_arg [OF this, of L x env] no_arg(2) show ?thesis
      by simp
  next
    case (proxy_fails e)
    then have b: "1 < length b"
      using len by simp
    from main_proxy_fails [OF b proxy_fails(2), of x] proxy_fails(1,3) at show ?thesis
      by simp
  next
    case unbound
    then have b: "1 < length b"
      using len by simp
    from main_domain_unbound [OF b unbound(2), of x] unbound(1,3,4) at show ?thesis
      by simp
  next
    case (first_fails d e)
    then have b: "1 < length b" and eq: "a ! 1 = b ! 1"
      using len at by simp_all
    from first_fails(4) eq have "first_answer L env d (b ! 1) = Inl e"
      by simp
    from main_first_call_fails [where extra = x, OF b first_fails(2,3) this]
      first_fails(5) eq show ?thesis
      by simp
  next
    case (second_fails d r e)
    then have b: "1 < length b" and eq: "a ! 1 = b ! 1"
      using len at by simp_all
    from second_fails(4,5) eq have "first_answer L env d (b ! 1) = Inr r"
      and "second_answer L env d (b ! 1) = Inl e"
      by simp_all
    from main_second_call_fails [where extra = x, OF b second_fails(2,3) this]
      second_fails(6) eq show ?thesis
      by simp
  next
    case (completes d r r2)
    then have b: "1 < length b" and eq: "a ! 1 = b ! 1"
      using len at by simp_all
    from completes(4,5) eq have "first_answer L env d (b ! 1) = Inr r"
      and "second_answer L env d (b ! 1) = Inr r2"
      by simp_all
    from main_completes [where extra = x, OF b completes(2,3) this]
      completes(6) eq show ?thesis
      by simp
  qed
  from run [of extra] run [of Map.empty] show ?thesis
    by (simp add: script_def)
qed

theorem further_arguments_are_ignored_witness:
  "take 1 (drop 1 [''registerSubdomain.py'', ''www'']) =
     take 1 (drop 1 [''/opt/tools/register'', ''www'', ''--force'', ''mail'']) \<and>
   events (main sample_lib with_domain sample_env
             [''/opt/tools/register'', ''www'', ''--force'', ''mail'']) =
     [NewServerProxy (PyStr ''https://dns.example/xmlrpc'') ''utf-8'',
      RemoteCall ''addSubdomain''
        [PyStr ''alice'', PyStr ''s3cret'', PyStr ''school.example'', PyStr ''www''],
      Sleep 1,
      RemoteCall ''addZoneRecord''
        [PyStr ''alice'', PyStr ''s3cret'', PyStr ''school.example'', PyStr ''www'',
         zone_record (PyStr ''192.0.2.10'')]] \<and>
   raised (main sample_lib with_domain sample_env
             [''/opt/tools/register'', ''www'', ''--force'', ''mail'']) = None \<and>
   raised (script sample_lib sample_env
             [''/opt/tools/register'', ''www'', ''--force'', ''mail'']) =
     raised (script sample_lib sample_env [''registerSubdomain.py'', ''www''])"
proof -
  have same: "take 1 (drop 1 [''registerSubdomain.py'', ''www'']) =
      take 1 (drop 1 [''/opt/tools/register'', ''www'', ''--force'', ''mail''])"
    by simp
  from further_arguments_are_ignored
    [OF same, of sample_lib with_domain sample_env] sample_run same
  show ?thesis
    by simp
qed


end
